theory Spec2Isabelle
  imports Complex_Main
begin

section \<open>Common ground: errors, time stamps, the console and the file system\<close>

text \<open>
  A Go \<^verbatim>\<open>string\<close> is a sequence of bytes, which is what \<^typ>\<open>string\<close> is here.
  An \<^verbatim>\<open>error\<close> made by \<^verbatim>\<open>errors.New(msg)\<close> is represented by its message, and a
  nil-able error by \<^typ>\<open>string option\<close> (\<open>None\<close> is \<^verbatim>\<open>nil\<close>).
  A \<^verbatim>\<open>time.Time\<close> is an opaque instant; the only facts used about it are that
  \<^verbatim>\<open>time.Now()\<close> reads the clock (the reading is an argument of every function that
  calls it) and that the zero value of the type exists.
\<close>

type_synonym error = string

type_synonym time = int

definition zero_time :: time where
  "zero_time = 0"

subsection \<open>float64\<close>

text \<open>
  A \<^verbatim>\<open>float64\<close> is NaN, an infinity or a finite number, given by the real it denotes.
  Comparison and arithmetic follow IEEE 754 binary64, as Go does: every comparison with
  NaN is false, NaN spreads through \<open>+\<close> and \<open>-\<close>, and the exact sum or difference of
  two finite numbers is rounded to the nearest float64, ties to the even significand,
  with overflow to an infinity (\<open>round64\<close>). The sign of zero is not modelled, and the
  type has a value for every real: those that no float64 denotes can only come in from
  outside (an amount entered, a number parsed), never out of \<open>+\<close> or \<open>-\<close>.
\<close>

datatype float64 = NaN | PInf | NInf | Fin real

text \<open>Rounding a real to the nearest integer, a tie to the even one.\<close>

definition round_even :: "real \<Rightarrow> int" where
  "round_even r =
     (let f = \<lfloor>r\<rfloor>
      in if r - of_int f < 1 / 2 then f
         else if 1 / 2 < r - of_int f then f + 1
         else if even f then f else f + 1)"

text \<open>
  Rounding a real to float64. The significand has 53 bits, so the unit in the last place
  of \<open>x\<close> is \<open>2 powi e\<close> with \<open>e\<close> the exponent of \<open>x\<close> less 52, and not below -1074
  (the subnormal numbers); \<open>x\<close> is rounded to a multiple of that unit, and a result of
  magnitude \<open>2 ^ 1024\<close> or more is an infinity.
\<close>

definition round64 :: "real \<Rightarrow> float64" where
  "round64 x =
     (if x = 0 then Fin 0
      else
        let e = max (\<lfloor>log 2 \<bar>x\<bar>\<rfloor> - 52) (- 1074);
            y = of_int (round_even (\<bar>x\<bar> / 2 powi e)) * 2 powi e
        in if 2 ^ 1024 \<le> y then (if 0 < x then PInf else NInf)
           else Fin (if 0 < x then y else - y))"

fun f_le :: "float64 \<Rightarrow> float64 \<Rightarrow> bool" where
  "f_le NaN _ = False"
| "f_le _ NaN = False"
| "f_le NInf _ = True"
| "f_le _ PInf = True"
| "f_le PInf _ = False"
| "f_le _ NInf = False"
| "f_le (Fin x) (Fin y) = (x \<le> y)"

fun f_gt :: "float64 \<Rightarrow> float64 \<Rightarrow> bool" where
  "f_gt NaN _ = False"
| "f_gt _ NaN = False"
| "f_gt NInf _ = False"
| "f_gt _ PInf = False"
| "f_gt PInf _ = True"
| "f_gt _ NInf = True"
| "f_gt (Fin x) (Fin y) = (x > y)"

fun f_add :: "float64 \<Rightarrow> float64 \<Rightarrow> float64" where
  "f_add NaN _ = NaN"
| "f_add _ NaN = NaN"
| "f_add PInf NInf = NaN"
| "f_add NInf PInf = NaN"
| "f_add PInf _ = PInf"
| "f_add _ PInf = PInf"
| "f_add NInf _ = NInf"
| "f_add _ NInf = NInf"
| "f_add (Fin x) (Fin y) = round64 (x + y)"

fun f_neg :: "float64 \<Rightarrow> float64" where
  "f_neg NaN = NaN"
| "f_neg PInf = NInf"
| "f_neg NInf = PInf"
| "f_neg (Fin x) = Fin (- x)"

definition f_sub :: "float64 \<Rightarrow> float64 \<Rightarrow> float64" where
  "f_sub a b = f_add a (f_neg b)"


subsection \<open>The standard library, as far as the snippets call it\<close>

text \<open>
  The Go standard library is not part of the repository. Its functions are parameters of
  the model, collected in one record; every general theorem below holds for each value
  of this record.
  \<^item> \<open>Sprint\<close>: \<^verbatim>\<open>fmt.Sprint\<close> on one \<^verbatim>\<open>float64\<close> (also the way \<^verbatim>\<open>fmt.Println\<close> renders it);
  \<^item> \<open>Sprint_int\<close>: the way \<^verbatim>\<open>fmt.Println\<close> renders an \<^verbatim>\<open>int\<close>;
  \<^item> \<open>ParseFloat\<close>: \<^verbatim>\<open>strconv.ParseFloat(s, 64)\<close>, the pair of its two results;
  \<^item> \<open>ReplaceAll\<close>, \<open>ToLower\<close>: the functions of package \<^verbatim>\<open>strings\<close>;
  \<^item> \<open>time_MarshalJSON\<close>: \<^verbatim>\<open>time.Time.MarshalJSON\<close>, the JSON text of an instant or an error;
  \<^item> \<open>json_encode\<close>: the bytes \<^verbatim>\<open>encoding/json\<close> writes for an object, given its keys
    and values in order.
\<close>

datatype json_value = JString string | JRaw string

type_synonym json_object = "(string \<times> json_value) list"

record stdlib =
  Sprint :: "float64 \<Rightarrow> string"
  Sprint_int :: "int \<Rightarrow> string"
  ParseFloat :: "string \<Rightarrow> float64 \<times> error option"
  ReplaceAll :: "string \<Rightarrow> string \<Rightarrow> string \<Rightarrow> string"
  ToLower :: "string \<Rightarrow> string"
  time_MarshalJSON :: "time \<Rightarrow> error + string"
  json_encode :: "json_object \<Rightarrow> string"

subsection \<open>Console and files\<close>

text \<open>
  The world outside the program: the files by name, what has been printed (one entry
  for each call of a print function, oldest first), and, for each file name, the error
  with which the operating system refuses to write it, if it does. A refused
  \<^verbatim>\<open>os.WriteFile\<close> is taken to leave the files as they were, and a file that
  \<^verbatim>\<open>os.ReadFile\<close> cannot read is one that is not there: the call then returns no data
  and an error.
\<close>

record world =
  files :: "string \<rightharpoonup> string"
  stdout :: "string list"
  refused :: "string \<Rightarrow> error option"

definition Print :: "string \<Rightarrow> world \<Rightarrow> world" where
  "Print s w = w\<lparr>stdout := stdout w @ [s]\<rparr>"

definition Println :: "string \<Rightarrow> world \<Rightarrow> world" where
  "Println s w = Print (s @ [CHR 0x0A]) w"

definition os_ReadFile :: "world \<Rightarrow> string \<Rightarrow> string \<times> error option" where
  "os_ReadFile w name =
     (case files w name of
        None \<Rightarrow> ('''', Some (''open '' @ name @ '': no such file or directory''))
      | Some data \<Rightarrow> (data, None))"

definition os_WriteFile :: "world \<Rightarrow> string \<Rightarrow> string \<Rightarrow> world \<times> error option" where
  "os_WriteFile w name data =
     (case refused w name of
        Some e \<Rightarrow> (w, Some e)
      | None \<Rightarrow> (w\<lparr>files := (files w)(name \<mapsto> data)\<rparr>, None))"


section \<open>Package note (16-fixes and 17-struct-tags) and package todo\<close>

record Note =
  Title :: string
  Content :: string
  CreatedAt :: time

text \<open>\<^verbatim>\<open>Note{}\<close>, the zero value of the struct.\<close>

definition Note_zero :: Note where
  "Note_zero = \<lparr>Title = '''', Content = '''', CreatedAt = zero_time\<rparr>"

text \<open>
  The two snippets declare the same three fields and differ only in the struct tags. A
  field declaration is the Go field name with the value of the \<^verbatim>\<open>json\<close> key of its
  tag, if it has one.
\<close>

type_synonym field_decl = "string \<times> string option"

definition Note_fields_fixes :: "field_decl list" where
  "Note_fields_fixes = [(''Title'', None), (''Content'', None), (''CreatedAt'', None)]"

definition Note_fields_tags :: "field_decl list" where
  "Note_fields_tags =
     [(''Title'', Some ''title''), (''Content'', Some ''content''),
      (''CreatedAt'', Some ''created_at'')]"

text \<open>
  The key \<^verbatim>\<open>encoding/json\<close> gives a struct field: none for an unexported field or
  for the tag \<^verbatim>\<open>-\<close>; the tag's name (the part before the first comma) when it is not
  empty; the Go field name otherwise.
\<close>

definition exported :: "string \<Rightarrow> bool" where
  "exported name =
     (case name of [] \<Rightarrow> False
      | c # _ \<Rightarrow> (65::nat) \<le> of_char c \<and> of_char c \<le> (90::nat))"

definition json_key :: "field_decl \<Rightarrow> string option" where
  "json_key d =
     (if exported (fst d) then
        (case snd d of
           None \<Rightarrow> Some (fst d)
         | Some tag \<Rightarrow>
             if tag = ''-'' then None
             else if takeWhile (\<lambda>c. c \<noteq> CHR '','') tag = '''' then Some (fst d)
             else Some (takeWhile (\<lambda>c. c \<noteq> CHR '','') tag))
      else None)"

fun json_fields :: "field_decl list \<Rightarrow> json_value list \<Rightarrow> json_object" where
  "json_fields (d # ds) (v # vs) =
     (case json_key d of None \<Rightarrow> json_fields ds vs | Some k \<Rightarrow> (k, v) # json_fields ds vs)"
| "json_fields _ _ = []"

text \<open>
  \<^verbatim>\<open>json.Marshal(note)\<close> for a Note declared with the fields \<open>ds\<close>: the two strings
  always encode; the time stamp goes through its own \<^verbatim>\<open>MarshalJSON\<close>, whose error
  \<^verbatim>\<open>json.Marshal\<close> passes on.
\<close>

definition json_Marshal :: "stdlib \<Rightarrow> field_decl list \<Rightarrow> Note \<Rightarrow> error + string" where
  "json_Marshal env ds note =
     (case time_MarshalJSON env (CreatedAt note) of
        Inl e \<Rightarrow> Inl e
      | Inr t \<Rightarrow>
          Inr (json_encode env
                 (json_fields ds [JString (Title note), JString (Content note), JRaw t])))"

text \<open>\<^verbatim>\<open>func New(title, content string) (Note, error)\<close>, the same in both snippets.\<close>

definition note_New :: "time \<Rightarrow> string \<Rightarrow> string \<Rightarrow> Note \<times> error option" where
  "note_New now title content =
     (if title = '''' \<or> content = '''' then (Note_zero, Some ''Invalid input.'')
      else (\<lparr>Title = title, Content = content, CreatedAt = now\<rparr>, None))"

text \<open>\<^verbatim>\<open>func (note Note) Display()\<close>, the same in both snippets.\<close>

definition Display :: "Note \<Rightarrow> world \<Rightarrow> world" where
  "Display note w =
     Print (''Your note titled '' @ Title note @ '' has the following content:''
            @ [CHR 0x0A, CHR 0x0A] @ Content note @ [CHR 0x0A, CHR 0x0A]) w"

text \<open>\<^verbatim>\<open>func (note Note) Save() error\<close> of 16-fixes/note/note.go.\<close>

definition Save_fixes :: "stdlib \<Rightarrow> Note \<Rightarrow> world \<Rightarrow> world \<times> error option" where
  "Save_fixes env note w =
     (let fileName = ReplaceAll env (Title note) '' '' ''_'';
          fileName = ToLower env fileName;
          fileName = fileName @ ''.json''
      in case json_Marshal env Note_fields_fixes note of
           Inl err \<Rightarrow> (w, Some err)
         | Inr json \<Rightarrow> os_WriteFile w fileName json)"

text \<open>\<^verbatim>\<open>func (note Note) Save() error\<close> of 17-struct-tags/note/note.go.\<close>

definition Save_tags :: "stdlib \<Rightarrow> Note \<Rightarrow> world \<Rightarrow> world \<times> error option" where
  "Save_tags env note w =
     (let fileName = ReplaceAll env (Title note) '' '' ''_'';
          fileName = ToLower env fileName @ ''.json''
      in case json_Marshal env Note_fields_tags note of
           Inl err \<Rightarrow> (w, Some err)
         | Inr json \<Rightarrow> os_WriteFile w fileName json)"

text \<open>
  Both methods have value receivers: the callee works on a copy, and the variable of the
  caller that holds the Note is not reachable from the method. A caller is modelled by
  the Note it holds and the world; a call changes the world only.
\<close>

datatype note_call = Call_Display | Call_Save_fixes | Call_Save_tags

fun call :: "stdlib \<Rightarrow> Note \<times> world \<Rightarrow> note_call \<Rightarrow> Note \<times> world" where
  "call env (userNote, w) Call_Display = (userNote, Display userNote w)"
| "call env (userNote, w) Call_Save_fixes = (userNote, fst (Save_fixes env userNote w))"
| "call env (userNote, w) Call_Save_tags = (userNote, fst (Save_tags env userNote w))"

definition calls :: "stdlib \<Rightarrow> note_call list \<Rightarrow> Note \<times> world \<Rightarrow> Note \<times> world" where
  "calls env cs s = foldl (call env) s cs"


text \<open>
  Modelled from the spec: package todo is not among the sources (only its caller,
  06-interfaces/04-using-the-interface/main.go, is). The spec describes a Todo as
  \<open>{text, createdAt}\<close>, "structurally identical in spirit to Note with one field", that
  "cannot be constructed with an empty required field".
\<close>

record Todo =
  Text :: string
  Todo_CreatedAt :: time

definition Todo_zero :: Todo where
  "Todo_zero = \<lparr>Text = '''', Todo_CreatedAt = zero_time\<rparr>"

definition todo_New :: "time \<Rightarrow> string \<Rightarrow> Todo \<times> error option" where
  "todo_New now text' =
     (if text' = '''' then (Todo_zero, Some ''Invalid input.'')
      else (\<lparr>Text = text', Todo_CreatedAt = now\<rparr>, None))"


section \<open>The bank programs\<close>

text \<open>
  One round of a menu is what \<^verbatim>\<open>fmt.Scan\<close> delivers in it: the integer stored in
  \<^verbatim>\<open>choice\<close> and the number stored in \<^verbatim>\<open>depositAmount\<close> or \<^verbatim>\<open>withdrawalAmount\<close>
  when the chosen branch reads one. A scan that fails leaves its variable at the zero
  value, so a failed scan is the round with that value.
\<close>

record round =
  choice :: int
  amount :: float64

text \<open>The round of a failed scan, which is also the round at the end of the input.\<close>

definition zero_round :: round where
  "zero_round = \<lparr>choice = 0, amount = Fin 0\<rparr>"

datatype 'a ctl = Continue 'a | Return 'a


fun continues :: "'a ctl \<Rightarrow> bool" where
  "continues (Continue _) = True"
| "continues (Return _) = False"

definition accountBalanceFile :: string where
  "accountBalanceFile = ''balance.txt''"

text \<open>
  \<^verbatim>\<open>func writeBalanceToFile(balance float64)\<close>, the same in 22-writing-to-files/bank.go
  (with the file name written out), part_003, part_008 and part_009. The error of
  \<^verbatim>\<open>os.WriteFile\<close> is dropped.
\<close>

definition writeBalanceToFile :: "stdlib \<Rightarrow> float64 \<Rightarrow> world \<Rightarrow> world" where
  "writeBalanceToFile env balance w =
     (let balanceText = Sprint env balance
      in fst (os_WriteFile w accountBalanceFile balanceText))"

definition print_menu :: "world \<Rightarrow> world" where
  "print_menu w =
     (let w = Println ''What do you want to do?'' w;
          w = Println ''1. Check balance'' w;
          w = Println ''2. Deposit money'' w;
          w = Println ''3. Withdraw money'' w;
          w = Println ''4. Exit'' w
      in Print ''Your choice: '' w)"

text \<open>
  The body of the \<^verbatim>\<open>for\<close> loop of 22-writing-to-files/bank.go (lines 40 to 159); the
  bodies of the loops of part_003 and part_008 are the same statements.
\<close>

definition bank_round :: "stdlib \<Rightarrow> round \<Rightarrow> float64 \<times> world \<Rightarrow> (float64 \<times> world) ctl" where
  "bank_round env r s =
     (case s of (accountBalance, w0) \<Rightarrow>
        let w = print_menu w0 in
        if choice r = 1 then
          Continue (accountBalance, Println (''Your balance is '' @ Sprint env accountBalance) w)
        else if choice r = 2 then
          (let w = Print ''Your deposit: '' w;
               depositAmount = amount r
           in if f_le depositAmount (Fin 0) then
                Continue (accountBalance, Println ''Invalid amount. Must be greater than 0.'' w)
              else
                (let accountBalance = f_add accountBalance depositAmount;
                     w = Println (''Balance updated! New amount: '' @ Sprint env accountBalance) w
                 in Continue (accountBalance, writeBalanceToFile env accountBalance w)))
        else if choice r = 3 then
          (let w = Print ''Withdrawal amount: '' w;
               withdrawalAmount = amount r
           in if f_le withdrawalAmount (Fin 0) then
                Continue (accountBalance, Println ''Invalid amount. Must be greater than 0.'' w)
              else if f_gt withdrawalAmount accountBalance then
                Continue (accountBalance,
                  Println ''Invalid amount. You can't withdraw more than you have.'' w)
              else
                (let accountBalance = f_sub accountBalance withdrawalAmount;
                     w = Println (''Balance updated! New amount: '' @ Sprint env accountBalance) w
                 in Continue (accountBalance, writeBalanceToFile env accountBalance w)))
        else
          Return (accountBalance,
            Println ''Thanks for choosing our bank'' (Println ''Goodbye!'' w)))"






text \<open>\<^verbatim>\<open>func getBalanceFromFile() (float64, error)\<close> of part_008 (and of part_009).\<close>

definition getBalanceFromFile :: "stdlib \<Rightarrow> world \<Rightarrow> float64 \<times> error option" where
  "getBalanceFromFile env w =
     (case os_ReadFile w accountBalanceFile of (data, err) \<Rightarrow>
        if err \<noteq> None then (Fin 1000, Some ''Failed to find balance file.'')
        else
          (let balanceText = data
           in case ParseFloat env balanceText of (balance, err) \<Rightarrow>
                if err \<noteq> None then (Fin 1000, Some ''Failed to parse stored balance value.'')
                else (balance, None)))"



text \<open>
  \<^verbatim>\<open>func getBalanceFromFile() float64\<close> of part_003: both errors go to the blank
  identifier, and the value \<^verbatim>\<open>strconv.ParseFloat\<close> hands back is returned as it is.
\<close>

definition getBalanceFromFile_ignoring :: "stdlib \<Rightarrow> world \<Rightarrow> float64" where
  "getBalanceFromFile_ignoring env w =
     (case os_ReadFile w accountBalanceFile of (data, _) \<Rightarrow>
        let balanceText = data
        in case ParseFloat env balanceText of (balance, _) \<Rightarrow> balance)"









text \<open>
  The body of the loop of 20-infinite-loop-break-continue/bank.go: a rejected deposit
  goes on with the next pass (\<^verbatim>\<open>continue\<close>), a rejected withdrawal ends the program
  (\<^verbatim>\<open>return\<close>), and any other choice than 1, 2 or 3 leaves the loop (\<^verbatim>\<open>break\<close>) for
  the one statement after it, which is done here.
\<close>

definition round_break :: "stdlib \<Rightarrow> round \<Rightarrow> float64 \<times> world \<Rightarrow> (float64 \<times> world) ctl" where
  "round_break env r s =
     (case s of (accountBalance, w0) \<Rightarrow>
        let w = print_menu w0 in
        if choice r = 1 then
          Continue (accountBalance, Println (''Your balance is '' @ Sprint env accountBalance) w)
        else if choice r = 2 then
          (let w = Print ''Your deposit: '' w;
               depositAmount = amount r
           in if f_le depositAmount (Fin 0) then
                Continue (accountBalance, Println ''Invalid amount. Must be greater than 0.'' w)
              else
                (let accountBalance = f_add accountBalance depositAmount
                 in Continue (accountBalance,
                      Println (''Balance updated! New amount: '' @ Sprint env accountBalance) w)))
        else if choice r = 3 then
          (let w = Print ''Withdrawal amount: '' w;
               withdrawalAmount = amount r
           in if f_le withdrawalAmount (Fin 0) then
                Return (accountBalance, Println ''Invalid amount. Must be greater than 0.'' w)
              else if f_gt withdrawalAmount accountBalance then
                Return (accountBalance,
                  Println ''Invalid amount. You can't withdraw more than you have.'' w)
              else
                (let accountBalance = f_sub accountBalance withdrawalAmount
                 in Continue (accountBalance,
                      Println (''Balance updated! New amount: '' @ Sprint env accountBalance) w)))
        else
          Return (accountBalance,
            Println ''Thanks for choosing our bank'' (Println ''Goodbye!'' w)))"


text \<open>
  The body of the loop of part_007: the \<^verbatim>\<open>switch\<close> of the later programs, before the
  balance file was introduced.
\<close>

definition round_switch :: "stdlib \<Rightarrow> round \<Rightarrow> float64 \<times> world \<Rightarrow> (float64 \<times> world) ctl" where
  "round_switch env r s =
     (case s of (accountBalance, w0) \<Rightarrow>
        let w = print_menu w0 in
        if choice r = 1 then
          Continue (accountBalance, Println (''Your balance is '' @ Sprint env accountBalance) w)
        else if choice r = 2 then
          (let w = Print ''Your deposit: '' w;
               depositAmount = amount r
           in if f_le depositAmount (Fin 0) then
                Continue (accountBalance, Println ''Invalid amount. Must be greater than 0.'' w)
              else
                (let accountBalance = f_add accountBalance depositAmount
                 in Continue (accountBalance,
                      Println (''Balance updated! New amount: '' @ Sprint env accountBalance) w)))
        else if choice r = 3 then
          (let w = Print ''Withdrawal amount: '' w;
               withdrawalAmount = amount r
           in if f_le withdrawalAmount (Fin 0) then
                Continue (accountBalance, Println ''Invalid amount. Must be greater than 0.'' w)
              else if f_gt withdrawalAmount accountBalance then
                Continue (accountBalance,
                  Println ''Invalid amount. You can't withdraw more than you have.'' w)
              else
                (let accountBalance = f_sub accountBalance withdrawalAmount
                 in Continue (accountBalance,
                      Println (''Balance updated! New amount: '' @ Sprint env accountBalance) w)))
        else
          Return (accountBalance,
            Println ''Thanks for choosing our bank'' (Println ''Goodbye!'' w)))"



text \<open>
  The programs split over packages (both programs of part_009, and
  03-working-with-packages/04-third-party-packages/bank.go) have the loop of part_008
  with the menu printed by \<^verbatim>\<open>presentOptions()\<close> and, in two of them, the file read and
  written by package \<^verbatim>\<open>fileops\<close>. Neither \<^verbatim>\<open>presentOptions\<close> nor \<^verbatim>\<open>fileops\<close> is among
  the sources, and \<^verbatim>\<open>randomdata.PhoneNumber\<close> is third-party code: they are parameters
  here. \<open>save\<close> is the call that stores the balance, \<^verbatim>\<open>writeBalanceToFile(b)\<close> or
  \<^verbatim>\<open>fileops.WriteFloatToFile(b, accountBalanceFile)\<close>, whose result, if it has one, the
  program drops.
\<close>

definition round_packages ::
  "(world \<Rightarrow> world) \<Rightarrow> (float64 \<Rightarrow> world \<Rightarrow> world) \<Rightarrow> stdlib \<Rightarrow> round \<Rightarrow> float64 \<times> world
     \<Rightarrow> (float64 \<times> world) ctl" where
  "round_packages presentOptions save env r s =
     (case s of (accountBalance, w0) \<Rightarrow>
        let w = presentOptions w0;
            w = Print ''Your choice: '' w in
        if choice r = 1 then
          Continue (accountBalance, Println (''Your balance is '' @ Sprint env accountBalance) w)
        else if choice r = 2 then
          (let w = Print ''Your deposit: '' w;
               depositAmount = amount r
           in if f_le depositAmount (Fin 0) then
                Continue (accountBalance, Println ''Invalid amount. Must be greater than 0.'' w)
              else
                (let accountBalance = f_add accountBalance depositAmount;
                     w = Println (''Balance updated! New amount: '' @ Sprint env accountBalance) w
                 in Continue (accountBalance, save accountBalance w)))
        else if choice r = 3 then
          (let w = Print ''Withdrawal amount: '' w;
               withdrawalAmount = amount r
           in if f_le withdrawalAmount (Fin 0) then
                Continue (accountBalance, Println ''Invalid amount. Must be greater than 0.'' w)
              else if f_gt withdrawalAmount accountBalance then
                Continue (accountBalance,
                  Println ''Invalid amount. You can't withdraw more than you have.'' w)
              else
                (let accountBalance = f_sub accountBalance withdrawalAmount;
                     w = Println (''Balance updated! New amount: '' @ Sprint env accountBalance) w
                 in Continue (accountBalance, save accountBalance w)))
        else
          Return (accountBalance,
            Println ''Thanks for choosing our bank'' (Println ''Goodbye!'' w)))"





section \<open>Package user (struct embedding)\<close>

record User =
  firstName :: string
  lastName :: string
  birthDate :: string
  createdAt :: time

record Admin =
  email :: string
  password :: string
  User :: User

text \<open>
  \<^verbatim>\<open>func (u *User) ClearUserName()\<close>: the pointer receiver makes the assignments
  visible to the caller, so the model returns the struct after the call.
\<close>

definition ClearUserName :: "User \<Rightarrow> User" where
  "ClearUserName u = (let u1 = u\<lparr>firstName := ''''\<rparr>; u2 = u1\<lparr>lastName := ''''\<rparr> in u2)"

text \<open>
  \<^verbatim>\<open>admin.ClearUserName()\<close> is the promoted method: Go calls it on the address of the
  embedded field, \<^verbatim>\<open>(&admin.User).ClearUserName()\<close>.
\<close>

definition Admin_ClearUserName :: "Admin \<Rightarrow> Admin" where
  "Admin_ClearUserName a = a\<lparr>User := ClearUserName (User a)\<rparr>"

text \<open>\<^verbatim>\<open>func NewAdmin(email, password string) Admin\<close>; \<open>now\<close> is the reading of \<^verbatim>\<open>time.Now()\<close>.\<close>

definition NewAdmin :: "time \<Rightarrow> string \<Rightarrow> string \<Rightarrow> Admin" where
  "NewAdmin now email' password' =
     \<lparr>email = email', password = password',
      User = \<lparr>firstName = ''ADMIN'', lastName = ''ADMIN'', birthDate = ''---'', createdAt = now\<rparr>\<rparr>"

text \<open>
  \<^verbatim>\<open>func New(firstName, lastName, birthdate string) (*User, error)\<close>: the pair of the
  pointer (\<open>None\<close> for \<^verbatim>\<open>nil\<close>) and the error.
\<close>

definition user_New :: "time \<Rightarrow> string \<Rightarrow> string \<Rightarrow> string \<Rightarrow> User option \<times> error option" where
  "user_New now firstName' lastName' birthdate =
     (if firstName' = '''' \<or> lastName' = '''' \<or> birthdate = ''''
      then (None, Some ''First name, last name and birthdate are required.'')
      else (Some \<lparr>firstName = firstName', lastName = lastName', birthDate = birthdate,
                  createdAt = now\<rparr>, None))"


section \<open>A sample environment for the worked examples\<close>

text \<open>
  The examples below need the library functions at a few concrete arguments. The sample
  gives each of them there the value Go gives: \<^verbatim>\<open>fmt.Sprint\<close> and
  \<^verbatim>\<open>strconv.ParseFloat\<close> by a table of the numbers that occur (a text that is not a
  number parses to 0 with a syntax error, a number beyond the range of float64 to an
  infinity with a range error); \<^verbatim>\<open>strings.ReplaceAll\<close> for a non-empty pattern;
  \<^verbatim>\<open>strings.ToLower\<close> on ASCII text; and an encoder for objects whose strings need no
  escaping. Instants are opaque in this model, so the sample renders the zero instant as
  Go's zero time, every later one as one fixed date, and refuses the earlier ones as
  \<^verbatim>\<open>MarshalJSON\<close> refuses a year out of range. No general theorem depends on the sample.
\<close>

definition sample_Sprint :: "float64 \<Rightarrow> string" where
  "sample_Sprint f =
     (case f of
        NaN \<Rightarrow> ''NaN'' | PInf \<Rightarrow> ''+Inf'' | NInf \<Rightarrow> ''-Inf''
      | Fin x \<Rightarrow>
          if x = 1000 then ''1000'' else if x = 1250 then ''1250''
          else if x = 1250.5 then ''1250.5'' else if x = 750 then ''750''
          else if x = - 400 then ''-400'' else if x = - 500 then ''-500''
          else if x = - 1000 then ''-1000'' else ''?'')"

definition sample_Sprint_int :: "int \<Rightarrow> string" where
  "sample_Sprint_int i =
     (if i = 0 then ''0'' else if i = 1 then ''1'' else if i = 2 then ''2''
      else if i = 3 then ''3'' else if i = 4 then ''4'' else ''?'')"

definition sample_ParseFloat :: "string \<Rightarrow> float64 \<times> error option" where
  "sample_ParseFloat s =
     (if s = ''1250.5'' then (Fin 1250.5, None)
      else if s = ''1250'' then (Fin 1250, None)
      else if s = ''1000'' then (Fin 1000, None)
      else if s = ''750'' then (Fin 750, None)
      else if s = ''-500'' then (Fin (- 500), None)
      else if s = ''1e999'' then (PInf, Some ''value out of range'')
      else (Fin 0, Some ''invalid syntax''))"

fun sample_ReplaceAll :: "string \<Rightarrow> string \<Rightarrow> string \<Rightarrow> string" where
  "sample_ReplaceAll [] old new = []"
| "sample_ReplaceAll (c # cs) old new =
     (if old \<noteq> [] \<and> take (length old) (c # cs) = old
      then new @ sample_ReplaceAll (drop (length old - 1) cs) old new
      else c # sample_ReplaceAll cs old new)"

definition ascii_lower :: "char \<Rightarrow> char" where
  "ascii_lower c =
     (if (65::nat) \<le> of_char c \<and> of_char c \<le> (90::nat)
      then char_of (of_char c + (32::nat)) else c)"

definition sample_ToLower :: "string \<Rightarrow> string" where
  "sample_ToLower s = map ascii_lower s"

definition sample_time_MarshalJSON :: "time \<Rightarrow> error + string" where
  "sample_time_MarshalJSON t =
     (if t < 0 then Inl ''Time.MarshalJSON: year outside of range [0,9999]''
      else if t = zero_time then Inr ([CHR 0x22] @ ''0001-01-01T00:00:00Z'' @ [CHR 0x22])
      else Inr ([CHR 0x22] @ ''2025-01-17T10:30:00Z'' @ [CHR 0x22]))"

fun sample_encode_value :: "json_value \<Rightarrow> string" where
  "sample_encode_value (JString s) = [CHR 0x22] @ s @ [CHR 0x22]"
| "sample_encode_value (JRaw s) = s"

fun sample_encode_members :: "json_object \<Rightarrow> string" where
  "sample_encode_members [] = ''''"
| "sample_encode_members [(k, v)] = [CHR 0x22] @ k @ [CHR 0x22] @ '':'' @ sample_encode_value v"
| "sample_encode_members ((k, v) # kvs) =
     [CHR 0x22] @ k @ [CHR 0x22] @ '':'' @ sample_encode_value v @ '','' @ sample_encode_members kvs"

definition sample_json_encode :: "json_object \<Rightarrow> string" where
  "sample_json_encode kvs = ''{'' @ sample_encode_members kvs @ ''}''"

definition go_sample :: stdlib where
  "go_sample =
     \<lparr>Sprint = sample_Sprint, Sprint_int = sample_Sprint_int, ParseFloat = sample_ParseFloat,
      ReplaceAll = sample_ReplaceAll, ToLower = sample_ToLower,
      time_MarshalJSON = sample_time_MarshalJSON, json_encode = sample_json_encode\<rparr>"

text \<open>A world with no file and nothing printed, and one that holds a balance file.\<close>

definition empty_world :: world where
  "empty_world = \<lparr>files = Map.empty, stdout = [], refused = (\<lambda>_. None)\<rparr>"


definition shopping :: Note where
  "shopping = \<lparr>Title = ''My Shopping List'', Content = ''Buy milk and eggs'', CreatedAt = 7\<rparr>"

definition shopping_json_tags :: string where
  "shopping_json_tags =
     ''{'' @ [CHR 0x22] @ ''title'' @ [CHR 0x22] @ '':'' @ [CHR 0x22] @ ''My Shopping List''
     @ [CHR 0x22] @ '','' @ [CHR 0x22] @ ''content'' @ [CHR 0x22] @ '':'' @ [CHR 0x22]
     @ ''Buy milk and eggs'' @ [CHR 0x22] @ '','' @ [CHR 0x22] @ ''created_at''
     @ [CHR 0x22] @ '':'' @ [CHR 0x22] @ ''2025-01-17T10:30:00Z'' @ [CHR 0x22] @ ''}''"

definition shopping_json_fixes :: string where
  "shopping_json_fixes =
     ''{'' @ [CHR 0x22] @ ''Title'' @ [CHR 0x22] @ '':'' @ [CHR 0x22] @ ''My Shopping List''
     @ [CHR 0x22] @ '','' @ [CHR 0x22] @ ''Content'' @ [CHR 0x22] @ '':'' @ [CHR 0x22]
     @ ''Buy milk and eggs'' @ [CHR 0x22] @ '','' @ [CHR 0x22] @ ''CreatedAt''
     @ [CHR 0x22] @ '':'' @ [CHR 0x22] @ ''2025-01-17T10:30:00Z'' @ [CHR 0x22] @ ''}''"

definition balance_world :: "string \<Rightarrow> world" where
  "balance_world text' = empty_world\<lparr>files := [accountBalanceFile \<mapsto> text']\<rparr>"




section \<open>Properties of package user\<close>

text \<open>
  Claim C9. For every User, and for the User embedded in any Admin, ClearUserName sets
  firstName and lastName to the empty string and leaves birthDate and createdAt (and the
  Admin's own email and password) unchanged; applying it twice gives the same state as
  applying it once.
\<close>

theorem ClearUserName_frame_idempotent:
  "firstName (ClearUserName u) = '''' \<and> lastName (ClearUserName u) = '''' \<and>
   birthDate (ClearUserName u) = birthDate u \<and> createdAt (ClearUserName u) = createdAt u \<and>
   ClearUserName (ClearUserName u) = ClearUserName u \<and>
   firstName (User (Admin_ClearUserName a)) = '''' \<and>
   lastName (User (Admin_ClearUserName a)) = '''' \<and>
   birthDate (User (Admin_ClearUserName a)) = birthDate (User a) \<and>
   createdAt (User (Admin_ClearUserName a)) = createdAt (User a) \<and>
   email (Admin_ClearUserName a) = email a \<and> password (Admin_ClearUserName a) = password a \<and>
   Admin_ClearUserName (Admin_ClearUserName a) = Admin_ClearUserName a"
  by (simp add: ClearUserName_def Admin_ClearUserName_def Let_def)

text \<open>
  Claim C10. NewAdmin has no error result and validates nothing: for every email and
  password, the empty strings included, the Admin it returns carries exactly these two
  arguments and an embedded User with firstName "ADMIN", lastName "ADMIN" and birthDate
  "---" (created at the clock reading). New, in contrast, returns a nil pointer and an
  error whenever firstName, lastName or birthdate is empty, and only then.
\<close>

theorem NewAdmin_total_New_validates:
  "email (NewAdmin now e p) = e \<and> password (NewAdmin now e p) = p \<and>
   firstName (User (NewAdmin now e p)) = ''ADMIN'' \<and>
   lastName (User (NewAdmin now e p)) = ''ADMIN'' \<and>
   birthDate (User (NewAdmin now e p)) = ''---'' \<and>
   createdAt (User (NewAdmin now e p)) = now \<and>
   email (NewAdmin now '''' '''') = '''' \<and> password (NewAdmin now '''' '''') = '''' \<and>
   ((f = '''' \<or> l = '''' \<or> b = '''') =
      (user_New now f l b = (None, Some ''First name, last name and birthdate are required.''))) \<and>
   ((f \<noteq> '''' \<and> l \<noteq> '''' \<and> b \<noteq> '''') =
      (user_New now f l b =
         (Some \<lparr>firstName = f, lastName = l, birthDate = b, createdAt = now\<rparr>, None)))"
  by (simp add: NewAdmin_def user_New_def)

section \<open>Facts about the console and the files\<close>

lemma os_WriteFile_other:
  "n \<noteq> name \<Longrightarrow> files (fst (os_WriteFile w name data)) n = files w n"
  by (simp add: os_WriteFile_def split: option.splits)

lemma os_WriteFile_accepted:
  "refused w name = None \<Longrightarrow>
   files (fst (os_WriteFile w name data)) name = Some data \<and> snd (os_WriteFile w name data) = None"
  by (simp add: os_WriteFile_def)





section \<open>Properties of package note\<close>

lemma json_fields_fixes:
  "json_fields Note_fields_fixes [a, b, c] = [(''Title'', a), (''Content'', b), (''CreatedAt'', c)]"
  by (simp add: Note_fields_fixes_def json_key_def exported_def)

lemma json_fields_tags:
  "json_fields Note_fields_tags [a, b, c] = [(''title'', a), (''content'', b), (''created_at'', c)]"
  by (simp add: Note_fields_tags_def json_key_def exported_def)

lemma Save_tags_unfold:
  "Save_tags env note w =
     (case json_Marshal env Note_fields_tags note of
        Inl err \<Rightarrow> (w, Some err)
      | Inr json \<Rightarrow>
          os_WriteFile w (ToLower env (ReplaceAll env (Title note) '' '' ''_'') @ ''.json'') json)"
  by (simp add: Save_tags_def Let_def)

lemma Save_fixes_unfold:
  "Save_fixes env note w =
     (case json_Marshal env Note_fields_fixes note of
        Inl err \<Rightarrow> (w, Some err)
      | Inr json \<Rightarrow>
          os_WriteFile w (ToLower env (ReplaceAll env (Title note) '' '' ''_'') @ ''.json'') json)"
  by (simp add: Save_fixes_def Let_def)

lemma sample_name:
  "ToLower go_sample (ReplaceAll go_sample (Title shopping) '' '' ''_'') @ ''.json''
     = ''my_shopping_list.json''"
  unfolding go_sample_def shopping_def by code_simp

lemma sample_Marshal_tags:
  "json_Marshal go_sample Note_fields_tags shopping = Inr shopping_json_tags"
  by (simp add: json_Marshal_def json_fields_tags go_sample_def shopping_def
        sample_time_MarshalJSON_def sample_json_encode_def zero_time_def shopping_json_tags_def)

lemma sample_Marshal_fixes:
  "json_Marshal go_sample Note_fields_fixes shopping = Inr shopping_json_fixes"
  by (simp add: json_Marshal_def json_fields_fixes go_sample_def shopping_def
        sample_time_MarshalJSON_def sample_json_encode_def zero_time_def shopping_json_fixes_def)

lemma fst_calls: "fst (calls env cs (n, w)) = n"
  unfolding calls_def
proof (induction cs arbitrary: w)
  case Nil
  show ?case by simp
next
  case (Cons c cs)
  show ?case by (cases c) (simp_all add: Cons)
qed

text \<open>
  Claim C2. note.New returns a non-nil error exactly when the title or the content is the
  empty string. On success the Note carries the given title and content; on failure it
  is the zero Note. The constructor of a Todo fails exactly when its text is empty.
\<close>

theorem New_fails_iff_empty:
  "(snd (note_New now title content) \<noteq> None) = (title = '''' \<or> content = '''') \<and>
   (title \<noteq> '''' \<and> content \<noteq> '''' \<longrightarrow>
      snd (note_New now title content) = None \<and>
      Title (fst (note_New now title content)) = title \<and>
      Content (fst (note_New now title content)) = content) \<and>
   (title = '''' \<or> content = '''' \<longrightarrow> fst (note_New now title content) = Note_zero) \<and>
   (snd (todo_New now text') \<noteq> None) = (text' = '''') \<and>
   (text' \<noteq> '''' \<longrightarrow> Text (fst (todo_New now text')) = text') \<and>
   (text' = '''' \<longrightarrow> fst (todo_New now text') = Todo_zero)"
  by (simp add: note_New_def todo_New_def)

theorem New_fails_iff_empty_witness:
  "snd (note_New 7 ''Shopping List'' ''Buy milk and eggs'') = None \<and>
   Title (fst (note_New 7 ''Shopping List'' ''Buy milk and eggs'')) = ''Shopping List'' \<and>
   Content (fst (note_New 7 ''Shopping List'' ''Buy milk and eggs'')) = ''Buy milk and eggs'' \<and>
   fst (note_New 7 '''' ''Some content'') = Note_zero \<and>
   snd (note_New 7 '''' ''Some content'') \<noteq> None \<and>
   Text (fst (todo_New 7 ''Call dentist'')) = ''Call dentist'' \<and>
   fst (todo_New 7 '''') = Todo_zero"
  using New_fails_iff_empty [of 7 "''Shopping List''" "''Buy milk and eggs''" "''Call dentist''"]
        New_fails_iff_empty [of 7 "''''" "''Some content''" "''''"]
  by simp

text \<open>
  Claim C6. Save writes to one file only, the one named by the title with every space
  replaced by an underscore, lower-cased, and ".json" appended: every other file is left
  as it was, in both snippets; when json.Marshal succeeds, Save is the call of
  os.WriteFile with that name and the marshalled bytes, and when the operating system
  accepts the write the file holds these bytes and Save returns nil.
\<close>

theorem Save_file_name:
  "(n \<noteq> ToLower env (ReplaceAll env (Title note) '' '' ''_'') @ ''.json'' \<longrightarrow>
      files (fst (Save_tags env note w)) n = files w n \<and>
      files (fst (Save_fixes env note w)) n = files w n) \<and>
   (json_Marshal env Note_fields_tags note = Inr json \<longrightarrow>
      Save_tags env note w =
        os_WriteFile w (ToLower env (ReplaceAll env (Title note) '' '' ''_'') @ ''.json'') json) \<and>
   (json_Marshal env Note_fields_fixes note = Inr json' \<longrightarrow>
      Save_fixes env note w =
        os_WriteFile w (ToLower env (ReplaceAll env (Title note) '' '' ''_'') @ ''.json'') json') \<and>
   (json_Marshal env Note_fields_tags note = Inr json \<and>
    refused w (ToLower env (ReplaceAll env (Title note) '' '' ''_'') @ ''.json'') = None \<longrightarrow>
      files (fst (Save_tags env note w))
        (ToLower env (ReplaceAll env (Title note) '' '' ''_'') @ ''.json'') = Some json \<and>
      snd (Save_tags env note w) = None) \<and>
   (json_Marshal env Note_fields_fixes note = Inr json' \<and>
    refused w (ToLower env (ReplaceAll env (Title note) '' '' ''_'') @ ''.json'') = None \<longrightarrow>
      files (fst (Save_fixes env note w))
        (ToLower env (ReplaceAll env (Title note) '' '' ''_'') @ ''.json'') = Some json' \<and>
      snd (Save_fixes env note w) = None)"
  by (auto simp: Save_tags_unfold Save_fixes_unfold os_WriteFile_other os_WriteFile_accepted
           split: sum.splits)

theorem Save_file_name_witness:
  "files (fst (Save_tags go_sample shopping empty_world)) ''my_shopping_list.json''
     = Some shopping_json_tags \<and>
   snd (Save_tags go_sample shopping empty_world) = None \<and>
   files (fst (Save_fixes go_sample shopping empty_world)) ''my_shopping_list.json''
     = Some shopping_json_fixes \<and>
   snd (Save_fixes go_sample shopping empty_world) = None \<and>
   files (fst (Save_tags go_sample shopping empty_world)) ''My Shopping List.json'' = None \<and>
   files (fst (Save_fixes go_sample shopping empty_world)) ''My Shopping List.json'' = None"
proof -
  have r: "refused empty_world ''my_shopping_list.json'' = None"
    by (simp add: empty_world_def)
  have e: "files empty_world ''My Shopping List.json'' = None"
    by (simp add: empty_world_def)
  have ne: "''My Shopping List.json'' \<noteq> ''my_shopping_list.json''"
    by simp
  note t = Save_file_name [of "''My Shopping List.json''" go_sample shopping empty_world
             shopping_json_tags shopping_json_fixes, unfolded sample_name]
  from t r e ne sample_Marshal_tags sample_Marshal_fixes show ?thesis by metis
qed

text \<open>
  Claim C7. A Note that note.New returns without error has a non-empty Title, a
  non-empty Content and the clock reading of the call as CreatedAt (New takes no time
  stamp from its caller); and whatever sequence of Display and Save calls follows, the
  Note the caller holds is still that Note.
\<close>

theorem Note_invariant:
  "snd (note_New now title content) = None \<longrightarrow>
     fst (calls env cs (fst (note_New now title content), w)) = fst (note_New now title content) \<and>
     Title (fst (calls env cs (fst (note_New now title content), w))) = title \<and> title \<noteq> '''' \<and>
     Content (fst (calls env cs (fst (note_New now title content), w))) = content \<and>
     content \<noteq> '''' \<and>
     CreatedAt (fst (calls env cs (fst (note_New now title content), w))) = now"
  by (simp add: fst_calls) (simp add: note_New_def split: if_splits)

theorem Note_invariant_witness:
  "snd (note_New 7 ''My Shopping List'' ''Buy milk and eggs'') = None \<and>
   fst (calls go_sample [Call_Display, Call_Save_tags, Call_Save_fixes, Call_Display]
          (fst (note_New 7 ''My Shopping List'' ''Buy milk and eggs''), empty_world)) = shopping"
  using Note_invariant [of 7 "''My Shopping List''" "''Buy milk and eggs''" go_sample
          "[Call_Display, Call_Save_tags, Call_Save_fixes, Call_Display]" empty_world]
  by (simp add: note_New_def shopping_def)

text \<open>
  Claim C8. The object Save marshals has exactly three members, in the order of the
  fields: with the struct tags of 17-struct-tags their keys are "title", "content" and
  "created_at"; without tags (16-fixes) they are the Go field names "Title", "Content"
  and "CreatedAt". When the time stamp marshals and the write is accepted, the encoding
  of that object is what the file holds.
\<close>

theorem Save_json_keys:
  "map fst (json_fields Note_fields_tags [a, b, c]) = [''title'', ''content'', ''created_at''] \<and>
   map fst (json_fields Note_fields_fixes [a, b, c]) = [''Title'', ''Content'', ''CreatedAt''] \<and>
   json_Marshal env Note_fields_tags note =
     (case time_MarshalJSON env (CreatedAt note) of
        Inl e \<Rightarrow> Inl e
      | Inr t \<Rightarrow> Inr (json_encode env [(''title'', JString (Title note)),
                     (''content'', JString (Content note)), (''created_at'', JRaw t)])) \<and>
   json_Marshal env Note_fields_fixes note =
     (case time_MarshalJSON env (CreatedAt note) of
        Inl e \<Rightarrow> Inl e
      | Inr t \<Rightarrow> Inr (json_encode env [(''Title'', JString (Title note)),
                     (''Content'', JString (Content note)), (''CreatedAt'', JRaw t)])) \<and>
   (time_MarshalJSON env (CreatedAt note) = Inr t \<and>
    refused w (ToLower env (ReplaceAll env (Title note) '' '' ''_'') @ ''.json'') = None \<longrightarrow>
      files (fst (Save_tags env note w))
          (ToLower env (ReplaceAll env (Title note) '' '' ''_'') @ ''.json'')
        = Some (json_encode env [(''title'', JString (Title note)),
                  (''content'', JString (Content note)), (''created_at'', JRaw t)]) \<and>
      files (fst (Save_fixes env note w))
          (ToLower env (ReplaceAll env (Title note) '' '' ''_'') @ ''.json'')
        = Some (json_encode env [(''Title'', JString (Title note)),
                  (''Content'', JString (Content note)), (''CreatedAt'', JRaw t)]))"
  by (simp add: json_fields_tags json_fields_fixes json_Marshal_def Save_tags_unfold
        Save_fixes_unfold os_WriteFile_accepted split: sum.splits)

theorem Save_json_keys_witness:
  "files (fst (Save_tags go_sample shopping empty_world)) ''my_shopping_list.json''
     = Some (json_encode go_sample [(''title'', JString ''My Shopping List''),
               (''content'', JString ''Buy milk and eggs''),
               (''created_at'', JRaw ([CHR 0x22] @ ''2025-01-17T10:30:00Z'' @ [CHR 0x22]))]) \<and>
   files (fst (Save_fixes go_sample shopping empty_world)) ''my_shopping_list.json''
     = Some (json_encode go_sample [(''Title'', JString ''My Shopping List''),
               (''Content'', JString ''Buy milk and eggs''),
               (''CreatedAt'', JRaw ([CHR 0x22] @ ''2025-01-17T10:30:00Z'' @ [CHR 0x22]))])"
proof -
  have r: "refused empty_world ''my_shopping_list.json'' = None"
    by (simp add: empty_world_def)
  have m: "time_MarshalJSON go_sample (CreatedAt shopping)
             = Inr ([CHR 0x22] @ ''2025-01-17T10:30:00Z'' @ [CHR 0x22])"
    by (simp add: go_sample_def shopping_def sample_time_MarshalJSON_def zero_time_def)
  note t = Save_json_keys [of _ _ _ go_sample shopping
             "[CHR 0x22] @ ''2025-01-17T10:30:00Z'' @ [CHR 0x22]" empty_world,
             unfolded sample_name]
  from t r m show ?thesis by (simp add: shopping_def)
qed


section \<open>Facts about float64 arithmetic\<close>

text \<open>
  Rounding keeps the sign, leaves the integers up to \<open>2 ^ 53\<close> as they are, loses the
  last bit beyond (\<open>2 ^ 53 + 1\<close> becomes \<open>2 ^ 53\<close>) and sends \<open>2 ^ 1024\<close> and more to
  the infinity.
\<close>

lemma round_even_ge_floor: "\<lfloor>r\<rfloor> \<le> round_even r"
  by (simp add: round_even_def Let_def)


lemma round_even_int: "round_even (of_int z) = z"
  by (simp add: round_even_def)


lemma floor_log2_bounds:
  assumes "0 < a"
  shows "2 powi \<lfloor>log 2 a\<rfloor> \<le> a \<and> a < 2 powi (\<lfloor>log 2 a\<rfloor> + 1)"
proof -
  from floor_log_eq_powr_iff [of a 2 "\<lfloor>log 2 a\<rfloor>"] assms
  have "2 powr real_of_int \<lfloor>log 2 a\<rfloor> \<le> a \<and> a < 2 powr (real_of_int \<lfloor>log 2 a\<rfloor> + 1)"
    by simp
  moreover have "real_of_int \<lfloor>log 2 a\<rfloor> + 1 = real_of_int (\<lfloor>log 2 a\<rfloor> + 1)" by simp
  ultimately show ?thesis
    by (simp only: powr_real_of_int' [of 2, simplified])
qed

lemma floor_log2_eq:
  assumes "2 powi k \<le> a" "a < 2 powi (k + 1)" "0 < a"
  shows "\<lfloor>log 2 a\<rfloor> = k"
proof -
  have "(2::real) powr real_of_int k = 2 powi k"
    by (simp add: powr_real_of_int')
  moreover have "(2::real) powr (real_of_int k + 1) = 2 powi (k + 1)"
    using powr_real_of_int' [of 2 "k + 1"] by simp
  ultimately show ?thesis
    using floor_log_eq_powr_iff [of a 2 k] assms by simp
qed

lemma round64_exact:
  assumes k: "2 powi k \<le> a" "a < 2 powi (k + 1)" and pos: "0 < a"
    and e: "e = max (k - 52) (- 1074)"
    and z: "a / 2 powi e = of_int z" and small: "a < 2 ^ 1024"
  shows "round64 a = Fin a \<and> round64 (- a) = Fin (- a)"
proof -
  have fl: "\<lfloor>log 2 a\<rfloor> = k"
    using k pos by (rule floor_log2_eq)
  have nz: "(2::real) powi e \<noteq> 0" by simp
  from z nz have az: "of_int z * 2 powi e = a"
    by (simp add: field_simps)
  have "round_even (a / 2 powi e) = z"
    by (simp only: z round_even_int)
  with az have y: "of_int (round_even (a / 2 powi e)) * 2 powi e = a"
    by simp
  show ?thesis
    using pos small by (simp add: round64_def fl e [symmetric] y Let_def)
qed

lemma round64_int:
  assumes "\<bar>n\<bar> \<le> 2 ^ 53"
  shows "round64 (of_int n) = Fin (of_int n)"
proof (cases "n = 0")
  case True
  then show ?thesis by (simp add: round64_def)
next
  case False
  define a :: real where "a = of_int \<bar>n\<bar>"
  define k where "k = \<lfloor>log 2 a\<rfloor>"
  define e where "e = max (k - 52) (- 1074)"
  have a1: "1 \<le> a" using False by (simp add: a_def)
  then have pos: "0 < a" by simp
  have a2: "a \<le> 2 ^ 53"
  proof -
    have "real_of_int \<bar>n\<bar> \<le> real_of_int (2 ^ 53)" using assms by (simp only: of_int_le_iff)
    then show ?thesis by (simp add: a_def)
  qed
  have kb: "2 powi k \<le> a" "a < 2 powi (k + 1)"
    using floor_log2_bounds [OF pos] by (simp_all add: k_def)
  have k0: "0 \<le> k"
  proof (rule ccontr)
    assume "\<not> 0 \<le> k"
    then have "k + 1 \<le> 0" by simp
    then have "(2::real) powi (k + 1) \<le> 2 powi 0" by (intro power_int_increasing) simp_all
    with kb(2) a1 show False by simp
  qed
  have k53: "k \<le> 53"
  proof (rule ccontr)
    assume "\<not> k \<le> 53"
    then have "53 < k" by simp
    then have "(2::real) powi 53 < 2 powi k" by (intro power_int_strict_increasing) simp_all
    with kb(1) a2 show False by simp
  qed
  have e: "e = k - 52" using k0 by (simp add: e_def)
  have z: "\<exists>z. a / 2 powi e = real_of_int z"
  proof (cases "k = 53")
    case True
    then have "(2::real) powi 53 \<le> a" using kb(1) by simp
    with a2 have "a = 2 ^ 53" by simp
    then have "a / 2 powi e = real_of_int (2 ^ 52)" using True e by simp
    then show ?thesis ..
  next
    case False
    with k53 have "e \<le> 0" using e by simp
    then have "(2::real) powi e = inverse (2 ^ nat (- e))"
      by (cases "e = 0") (simp_all add: power_int_def power_one_over inverse_eq_divide)
    then have "a / 2 powi e = real_of_int (\<bar>n\<bar> * 2 ^ nat (- e))"
      by (simp add: a_def divide_inverse)
    then show ?thesis ..
  qed
  then obtain z where z: "a / 2 powi e = real_of_int z" ..
  have small: "a < 2 ^ 1024" using a2 by simp
  from round64_exact [OF kb pos e_def z small]
  show ?thesis by (cases "0 \<le> n") (simp_all add: a_def abs_if)
qed

lemma round64_tie: "round64 9007199254740993 = Fin 9007199254740992"
proof -
  have fl: "\<lfloor>log 2 (9007199254740993 :: real)\<rfloor> = 53"
    by (rule floor_log2_eq) simp_all
  have r: "round_even (9007199254740993 / 2) = 4503599627370496"
    by (simp add: round_even_def Let_def)
  show ?thesis
    by (simp add: round64_def fl r Let_def)
qed

lemma round64_overflow:
  assumes "2 ^ 1024 \<le> x"
  shows "round64 x = PInf"
proof -
  have "(0::real) < 2 ^ 1024" by simp
  with assms have pos: "0 < x" by linarith
  define k where "k = \<lfloor>log 2 x\<rfloor>"
  define e where "e = max (k - 52) (- 1074)"
  have kb: "2 powi k \<le> x" "x < 2 powi (k + 1)"
    using floor_log2_bounds [OF pos] by (simp_all add: k_def)
  have k: "1024 \<le> k"
  proof (rule ccontr)
    assume "\<not> 1024 \<le> k"
    then have "k + 1 \<le> 1024" by simp
    then have "(2::real) powi (k + 1) \<le> 2 powi 1024" by (intro power_int_increasing) simp_all
    with kb(2) assms show False by simp
  qed
  then have e: "e = k - 52" by (simp add: e_def)
  have p: "(2::real) powi k = 2 powi 52 * 2 powi e"
    unfolding e using power_int_add [of "2::real" 52 "k - 52"] by simp
  have epos: "(0::real) < 2 powi e" by simp
  have "(2::real) powi 52 \<le> x / 2 powi e"
    using kb(1) epos by (simp add: p field_simps)
  then have "real_of_int (2 ^ 52) \<le> x / 2 powi e"
    by simp
  then have "(2::int) ^ 52 \<le> \<lfloor>x / 2 powi e\<rfloor>"
    by (simp only: le_floor_iff)
  with round_even_ge_floor [of "x / 2 powi e"]
  have m: "(2::int) ^ 52 \<le> round_even (x / 2 powi e)" by (rule order_trans [rotated])
  have "972 \<le> e" using k e by simp
  then have "(2::real) powi 972 \<le> 2 powi e" by (intro power_int_increasing) simp_all
  moreover from m have "(2::real) ^ 52 \<le> real_of_int (round_even (x / 2 powi e))"
    by (metis of_int_le_iff of_int_numeral of_int_power)
  ultimately have "(2::real) ^ 52 * 2 powi 972 \<le> real_of_int (round_even (x / 2 powi e)) * 2 powi e"
    by (intro mult_mono) simp_all
  then have "(2::real) ^ 1024 \<le> real_of_int (round_even (x / 2 powi e)) * 2 powi e"
    by simp
  then show ?thesis
    using pos by (simp add: round64_def k_def [symmetric] e_def [symmetric] Let_def)
qed

lemma round64_samples [simp]:
  "round64 1250 = Fin 1250" "round64 750 = Fin 750" "round64 250 = Fin 250"
  "round64 (- 1000) = Fin (- 1000)" "round64 (- 400) = Fin (- 400)"
  using round64_int [of 1250] round64_int [of 750] round64_int [of 250]
        round64_int [of "- 1000"] round64_int [of "- 400"]
  by simp_all

lemma float64_rounds: "f_add (Fin (2 ^ 53)) (Fin 1) = Fin (2 ^ 53)"
  using round64_tie by simp

lemma float64_overflows: "f_add (Fin (10 ^ 308)) (Fin (10 ^ 308)) = PInf"
  by (simp add: round64_overflow)


section \<open>Properties of the bank programs\<close>

subsection \<open>The rounds of the menu, case by case\<close>

















lemma zero_round_returns:
  "\<not> continues (bank_round env zero_round s) \<and> \<not> continues (round_break env zero_round s) \<and>
   \<not> continues (round_switch env zero_round s) \<and>
   \<not> continues (round_packages presentOptions save env zero_round s)"
  by (cases s)
     (simp add: bank_round_def round_break_def round_switch_def round_packages_def
        zero_round_def Let_def)










subsection \<open>Reading the balance file\<close>

text \<open>
  What the two readers return. With the error results (part_008): 1000 and an error when
  the file is missing, 1000 and another error when \<^verbatim>\<open>strconv.ParseFloat\<close> reports an
  error, the parsed number and nil otherwise; \<^verbatim>\<open>main\<close> prints the error and goes on
  with the 1000. Without them (part_003): the number \<^verbatim>\<open>strconv.ParseFloat\<close> hands back
  for the text of the file, or for the empty text when there is no file. Reading back
  what writeBalanceToFile wrote is \<^verbatim>\<open>strconv.ParseFloat\<close> after \<^verbatim>\<open>fmt.Sprint\<close>, nothing
  more and nothing less.
\<close>

lemma getBalanceFromFile_cases:
  "(files w accountBalanceFile = None \<longrightarrow>
      getBalanceFromFile env w = (Fin 1000, Some ''Failed to find balance file.'')) \<and>
   (files w accountBalanceFile = Some d \<and> snd (ParseFloat env d) \<noteq> None \<longrightarrow>
      getBalanceFromFile env w = (Fin 1000, Some ''Failed to parse stored balance value.'')) \<and>
   (files w accountBalanceFile = Some d \<and> snd (ParseFloat env d) = None \<longrightarrow>
      getBalanceFromFile env w = (fst (ParseFloat env d), None))"
  by (auto simp: getBalanceFromFile_def os_ReadFile_def Let_def split: prod.splits)

















subsection \<open>Rejected and accepted amounts\<close>




subsection \<open>The sign of the balance\<close>




subsection \<open>Reading back what was written\<close>




subsection \<open>A number out of range in the balance file\<close>

text \<open>
  Claim C5, at the input where the code leaves it. The balance file holds the text
  1e999, a number beyond the range of float64, for which \<^verbatim>\<open>strconv.ParseFloat\<close>
  returns an infinity together with a range error. The reader of part_003 drops the error
  and returns the infinity, not 0.0; the reader of part_008 falls back to 1000 with its
  error, as claimed.
\<close>

theorem ignoring_range_error:
  "snd (ParseFloat go_sample ''1e999'') \<noteq> None \<and>
   getBalanceFromFile_ignoring go_sample (balance_world ''1e999'') = PInf \<and>
   getBalanceFromFile go_sample (balance_world ''1e999'')
     = (Fin 1000, Some ''Failed to parse stored balance value.'')"
  by (simp add: getBalanceFromFile_ignoring_def getBalanceFromFile_def os_ReadFile_def
        balance_world_def go_sample_def sample_ParseFloat_def Let_def)

end
